theory Spec2Isabelle
  imports Complex_Main
begin

section \<open>Python strings\<close>

text \<open>
  A Python \<open>str\<close> is modelled as a HOL \<open>string\<close>: a list of characters whose code
  points lie below 256. \<open>is_space\<close> is the set of characters that \<open>str.strip()\<close>
  (no argument) removes in that range: U+0009..U+000D, U+001C..U+0020, U+0085, U+00A0.
\<close>

definition is_space :: "char \<Rightarrow> bool" where
  "is_space c =
     (let n = (of_char c :: nat)
      in (9 \<le> n \<and> n \<le> 13) \<or> (28 \<le> n \<and> n \<le> 32) \<or> n = 133 \<or> n = 160)"

definition strip :: "string \<Rightarrow> string" where
  "strip s = rev (dropWhile is_space (rev (dropWhile is_space s)))"

text \<open>
  \<open>s.split(sep)\<close> for a one-character separator: the pieces between the separators,
  empty pieces included, so that the empty string gives one empty piece.
\<close>

fun split :: "char \<Rightarrow> string \<Rightarrow> string list" where
  "split sep [] = [[]]"
| "split sep (c # cs) =
     (if c = sep then [] # split sep cs
      else (case split sep cs of
              [] \<Rightarrow> [[c]]
            | w # ws \<Rightarrow> (c # w) # ws))"

text \<open>
  \<open>str.lower()\<close> on code points below 256: the letters A..Z, U+00C0..U+00D6 and
  U+00D8..U+00DE move up by 32, every other character is unchanged.
\<close>

definition lower_char :: "char \<Rightarrow> char" where
  "lower_char c =
     (let n = (of_char c :: nat)
      in if (65 \<le> n \<and> n \<le> 90) \<or> (192 \<le> n \<and> n \<le> 214) \<or> (216 \<le> n \<and> n \<le> 222)
         then char_of (n + 32) else c)"

definition lower :: "string \<Rightarrow> string" where
  "lower s = map lower_char s"


section \<open>Job postings and the phrase normalizer (compare.py, lines 46--62)\<close>

text \<open>
  A posting is a JSON object. Each of its four skill-bearing fields is absent
  (\<open>job.get(field)\<close> is \<open>None\<close>), a scalar string, or a list of strings.
\<close>

datatype field_val = FNone | FStr string | FList "string list"

record job =
  title :: string
  company :: string
  requirements :: field_val
  technologies_expected :: field_val
  technologies_optional :: field_val
  specializations :: field_val

text \<open>Python truthiness of a field value (\<open>if val:\<close>) and of a string (\<open>if x\<close>).\<close>

fun truthy :: "field_val \<Rightarrow> bool" where
  "truthy FNone = False"
| "truthy (FStr s) = (s \<noteq> [])"
| "truthy (FList xs) = (xs \<noteq> [])"

text \<open>
  The inner loop over \<open>str(val).split(';')\<close>: each part is split on commas and the
  trimmed tokens that are not empty are appended to \<open>items\<close>.
\<close>

definition split_items :: "string \<Rightarrow> string list" where
  "split_items val =
     foldl (\<lambda>items part. items @ [strip x. x \<leftarrow> split CHR '','' part, strip x \<noteq> []])
       [] (split CHR '';'' val)"

fun field_items :: "field_val \<Rightarrow> string list" where
  "field_items (FList xs) = xs"
| "field_items (FStr s) = split_items s"
| "field_items FNone = []"

definition job_fields :: "(job \<Rightarrow> field_val) list" where
  "job_fields = [requirements, technologies_expected, technologies_optional, specializations]"

text \<open>The loop over the four field names, extending \<open>job_skill_texts\<close>.\<close>

definition extract_job_skill_texts :: "job \<Rightarrow> string list" where
  "extract_job_skill_texts j =
     foldl (\<lambda>job_skill_texts field.
              let val = field j
              in if truthy val
                 then job_skill_texts @ [strip x. x \<leftarrow> field_items val, x \<noteq> [] \<and> strip x \<noteq> []]
                 else job_skill_texts)
       [] job_fields"

text \<open>
  The normalizer as the specification words it: a list contributes its elements trimmed,
  a scalar string is split on semicolons, each segment on commas, every token trimmed;
  empty tokens are dropped; the four fields are taken in the fixed order.
\<close>

fun field_phrases_spec :: "field_val \<Rightarrow> string list" where
  "field_phrases_spec FNone = []"
| "field_phrases_spec (FList xs) = filter (\<lambda>t. t \<noteq> []) (map strip xs)"
| "field_phrases_spec (FStr s) =
     filter (\<lambda>t. t \<noteq> []) (map strip (concat (map (split CHR '','') (split CHR '';'' s))))"

definition phrases_spec :: "job \<Rightarrow> string list" where
  "phrases_spec j =
     field_phrases_spec (requirements j) @ field_phrases_spec (technologies_expected j) @
     field_phrases_spec (technologies_optional j) @ field_phrases_spec (specializations j)"


section \<open>The aggregator state (compare.py, lines 41--44)\<close>

datatype py_error = ValueError | ZeroDivisionError | IndexError | RuntimeError

record job_result =
  job_title :: string
  company :: string
  matched_job_skills :: int
  total_job_skills :: int
  match_ratio :: real

text \<open>
  \<open>job_skill_counter\<close> is a Python dict: an association list in insertion order with
  distinct keys. \<open>dict_get\<close> is \<open>d.get(k, dflt)\<close>, \<open>dict_set\<close> is \<open>d[k] = v\<close>
  (an existing key keeps its position, a new key goes to the end), \<open>dict_contains\<close>
  is \<open>k in d\<close>.
\<close>

definition dict_get :: "('k \<times> 'v) list \<Rightarrow> 'k \<Rightarrow> 'v \<Rightarrow> 'v" where
  "dict_get d k dflt = (case map_of d k of None \<Rightarrow> dflt | Some v \<Rightarrow> v)"

fun dict_set :: "('k \<times> 'v) list \<Rightarrow> 'k \<Rightarrow> 'v \<Rightarrow> ('k \<times> 'v) list" where
  "dict_set [] k v = [(k, v)]"
| "dict_set ((k', v') # d) k v =
     (if k' = k then (k', v) # d else (k', v') # dict_set d k v)"

definition dict_contains :: "('k \<times> 'v) list \<Rightarrow> 'k \<Rightarrow> bool" where
  "dict_contains d k = (map_of d k \<noteq> None)"

record agg_state =
  results :: "job_result list"
  study_skill_match_counts :: "int list"
  job_skill_counter :: "(string \<times> int) list"

definition initial_state :: "nat \<Rightarrow> agg_state" where
  "initial_state total_study_skills =
     \<lparr>results = [], study_skill_match_counts = replicate total_study_skills 0,
      job_skill_counter = []\<rparr>"

section \<open>Matching one posting (compare.py, lines 64--98)\<close>

definition SIMILARITY_THRESHOLD :: real where
  "SIMILARITY_THRESHOLD = 0.50"

text \<open>Lines 65--66: every occurrence of a phrase adds one to its entry.\<close>

definition count_job_skills :: "(string \<times> int) list \<Rightarrow> string list \<Rightarrow> (string \<times> int) list" where
  "count_job_skills counter job_skill_texts =
     foldl (\<lambda>c skill. dict_set c skill (dict_get c skill 0 + 1)) counter job_skill_texts"

text \<open>
  The embedding model and the cosine similarity of the library are parameters:
  \<open>encode\<close> maps a phrase to its vector (\<open>model.encode\<close> maps it over a list), and
  \<open>sim a b\<close> is the value \<open>util.cos_sim\<close> stores for the pair, read as a real number.
  \<open>model.encode\<close> of an empty list is a tensor of shape (0,), on which the matrix
  product inside \<open>util.cos_sim\<close> raises \<open>RuntimeError\<close>; otherwise the result is the
  matrix with one row per vector of \<open>a\<close> and one column per vector of \<open>b\<close>.
  The tensor operations are those of lines 82--86 on a matrix given as a list of rows.
\<close>

definition cos_sim ::
  "('v \<Rightarrow> 'v \<Rightarrow> real) \<Rightarrow> 'v list \<Rightarrow> 'v list \<Rightarrow> py_error + real list list" where
  "cos_sim sim a b =
     (if a = [] \<or> b = [] then Inl RuntimeError else Inr (map (\<lambda>x. map (sim x) b) a))"

definition ge_threshold :: "real list list \<Rightarrow> bool list list" where
  "ge_threshold m = map (map (\<lambda>s. s \<ge> SIMILARITY_THRESHOLD)) m"

definition any_dim1 :: "bool list list \<Rightarrow> bool list" where
  "any_dim1 m = map (list_ex id) m"

definition any_dim0 :: "nat \<Rightarrow> bool list list \<Rightarrow> bool list" where
  "any_dim0 ncols m = map (\<lambda>j. list_ex (\<lambda>row. row ! j) m) [0..<ncols]"

definition sum_bool :: "bool list \<Rightarrow> int" where
  "sum_bool bs = int (length (filter id bs))"

definition truediv :: "int \<Rightarrow> int \<Rightarrow> py_error + real" where
  "truediv a b = (if b = 0 then Inl ZeroDivisionError else Inr (real_of_int a / real_of_int b))"

definition process_job ::
  "(string \<Rightarrow> 'v) \<Rightarrow> ('v \<Rightarrow> 'v \<Rightarrow> real) \<Rightarrow> 'v list \<Rightarrow> agg_state \<Rightarrow> job \<Rightarrow> py_error + agg_state" where
  "process_job encode sim study_embeddings st j =
     (let job_skill_texts = extract_job_skill_texts j;
          st1 = st\<lparr>job_skill_counter := count_job_skills (job_skill_counter st) job_skill_texts\<rparr>
      in if job_skill_texts = [] then
           Inr (st1\<lparr>results := results st1 @
                  [\<lparr>job_title = title j, company = job.company j, matched_job_skills = 0,
                    total_job_skills = 0, match_ratio = 0\<rparr>]\<rparr>)
         else
           let job_embeddings = map encode job_skill_texts
           in case cos_sim sim job_embeddings study_embeddings of
                Inl e \<Rightarrow> Inl e
              | Inr similarity_matrix \<Rightarrow>
                 (let match_counts = sum_bool (any_dim1 (ge_threshold similarity_matrix));
                      study_skill_matches =
                        any_dim0 (length study_embeddings) (ge_threshold similarity_matrix);
                      counts = map (\<lambda>(a, b). a + (if b then 1 else 0))
                                 (zip (study_skill_match_counts st1) study_skill_matches);
                      total = int (length job_skill_texts)
                  in case (if total > 0 then truediv match_counts total else Inr 0) of
                       Inl e \<Rightarrow> Inl e
                     | Inr ratio \<Rightarrow>
                         Inr (st1\<lparr>study_skill_match_counts := counts,
                                  results := results st1 @
                                    [\<lparr>job_title = title j, company = job.company j,
                                      matched_job_skills = match_counts,
                                      total_job_skills = total, match_ratio = ratio\<rparr>]\<rparr>)))"

text \<open>The loop over \<open>jobs_data\<close>; an error ends the run.\<close>

fun process_jobs ::
  "(string \<Rightarrow> 'v) \<Rightarrow> ('v \<Rightarrow> 'v \<Rightarrow> real) \<Rightarrow> 'v list \<Rightarrow> agg_state \<Rightarrow> job list \<Rightarrow> py_error + agg_state" where
  "process_jobs encode sim study_embeddings st [] = Inr st"
| "process_jobs encode sim study_embeddings st (j # js) =
     (case process_job encode sim study_embeddings st j of
        Inl e \<Rightarrow> Inl e
      | Inr st' \<Rightarrow> process_jobs encode sim study_embeddings st' js)"

section \<open>The run and its outputs (compare.py, lines 21--44 and 100--142)\<close>

text \<open>
  The vocabulary file: each technology has a name, each soft skill a name and possibly a
  description (\<open>s.get("description", s["name"])\<close>).
\<close>

record technology_json =
  name :: string

record soft_skill_json =
  name :: string
  description :: "string option"

record skills_json =
  technologies :: "technology_json list"
  soft_skills :: "soft_skill_json list"

definition study_skills_of :: "skills_json \<Rightarrow> string list" where
  "study_skills_of skills_data =
     (let tech_skills = map technology_json.name (technologies skills_data);
          soft = map (\<lambda>s. case description s of
                              Some d \<Rightarrow> d
                            | None \<Rightarrow> soft_skill_json.name s)
                   (soft_skills skills_data)
      in tech_skills @ soft)"

text \<open>
  \<open>pd.Series(xs).idxmax()\<close>: the position of the first occurrence of the maximum; on an
  empty series the library raises \<open>ValueError\<close>.
\<close>

fun idxmax :: "int list \<Rightarrow> py_error + nat" where
  "idxmax [] = Inl ValueError"
| "idxmax (x # xs) = Inr (length (takeWhile (\<lambda>y. y \<noteq> fold max xs x) (x # xs)))"

text \<open>List indexing \<open>xs[i]\<close> with a non-negative index.\<close>

definition index :: "'a list \<Rightarrow> nat \<Rightarrow> py_error + 'a" where
  "index xs i = (if i < length xs then Inr (xs ! i) else Inl IndexError)"

text \<open>
  \<open>max(d, key=d.get)\<close> on a non-empty dict: the first key, in insertion order, whose
  value is maximal. The branch \<open>if job_skill_counter:\<close> guards the empty dict.
\<close>

fun most_needed :: "(string \<times> int) list \<Rightarrow> (string \<times> int) option" where
  "most_needed [] = None"
| "most_needed (kv # d) =
     Some (foldl (\<lambda>best kv'. if snd best < snd kv' then kv' else best) kv d)"

record summary =
  max_study_skill :: string
  max_study_count :: int
  most_needed_job_skill :: "(string \<times> int) option"

record outputs =
  job_skill_matches_csv :: "job_result list"
  job_skill_summary :: summary
  study_skill_match_counts_csv :: "(string \<times> int) list"
  job_skill_frequencies_csv :: "(string \<times> int) list"

text \<open>
  \<open>pd.DataFrame\<close> from two columns raises \<open>ValueError\<close> when their lengths differ.
\<close>

definition data_frame :: "'a list \<Rightarrow> 'b list \<Rightarrow> py_error + ('a \<times> 'b) list" where
  "data_frame xs ys = (if length xs = length ys then Inr (zip xs ys) else Inl ValueError)"

text \<open>
  \<open>sort_values\<close> is the parameter that stands for
  \<open>DataFrame.sort_values(by=<the count column>, ascending=False)\<close> with the sorting kind
  left at the library's default, applied to the rows (text, count) of a table.
\<close>

definition main ::
  "(string \<Rightarrow> 'v) \<Rightarrow> ('v \<Rightarrow> 'v \<Rightarrow> real) \<Rightarrow>
   ((string \<times> int) list \<Rightarrow> (string \<times> int) list) \<Rightarrow>
   skills_json \<Rightarrow> job list \<Rightarrow> py_error + outputs" where
  "main encode sim sort_values skills_data jobs_data =
     (let study_skills = study_skills_of skills_data;
          total_study_skills = length study_skills;
          study_embeddings = map encode study_skills
      in case process_jobs encode sim study_embeddings
                (initial_state total_study_skills) jobs_data of
           Inl e \<Rightarrow> Inl e
         | Inr st \<Rightarrow>
          (case idxmax (study_skill_match_counts st) of
             Inl e \<Rightarrow> Inl e
           | Inr max_study_idx \<Rightarrow>
            (case index study_skills max_study_idx of
               Inl e \<Rightarrow> Inl e
             | Inr skill \<Rightarrow>
              (case index (study_skill_match_counts st) max_study_idx of
                 Inl e \<Rightarrow> Inl e
               | Inr cnt \<Rightarrow>
                (case data_frame study_skills (study_skill_match_counts st) of
                   Inl e \<Rightarrow> Inl e
                 | Inr study_skill_df \<Rightarrow>
                     Inr \<lparr>job_skill_matches_csv = results st,
                          job_skill_summary =
                            \<lparr>max_study_skill = skill, max_study_count = cnt,
                             most_needed_job_skill = most_needed (job_skill_counter st)\<rparr>,
                          study_skill_match_counts_csv = sort_values study_skill_df,
                          job_skill_frequencies_csv =
                            sort_values (job_skill_counter st)\<rparr>)))))"

section \<open>A value for the sort parameter\<close>

text \<open>
  The example runs need a sort: \<open>sort_desc_stable\<close> orders the rows by count
  descending and leaves rows of equal count in their order.
\<close>

definition sort_desc_stable :: "(string \<times> int) list \<Rightarrow> (string \<times> int) list" where
  "sort_desc_stable rows = sort_key (\<lambda>r. - snd r) rows"

section \<open>The deduplicator (models.py, parse_to_json.py lines 10--43)\<close>

record TechnologySkill =
  name :: string
  category :: string

record SoftSkill =
  name :: string
  description :: string

record ExtractedSkills =
  technologies :: "TechnologySkill list"
  soft_skills :: "SoftSkill list"
  document_title :: string

record SkillDeduplicator =
  unique_technologies :: "(string \<times> TechnologySkill) list"
  unique_soft_skills :: "(string \<times> SoftSkill) list"
  document_titles :: "string list"

definition SkillDeduplicator_init :: SkillDeduplicator where
  "SkillDeduplicator_init =
     \<lparr>unique_technologies = [], unique_soft_skills = [], document_titles = []\<rparr>"

text \<open>The dictionary keys: \<open>tech.name.lower().strip()\<close> and \<open>skill.name.lower().strip()\<close>.\<close>

definition tech_key :: "TechnologySkill \<Rightarrow> string" where
  "tech_key tech = strip (lower (TechnologySkill.name tech))"

definition skill_key :: "SoftSkill \<Rightarrow> string" where
  "skill_key skill = strip (lower (SoftSkill.name skill))"

definition add_extracted_skills :: "SkillDeduplicator \<Rightarrow> ExtractedSkills \<Rightarrow> SkillDeduplicator" where
  "add_extracted_skills self skills =
     (let self1 =
            (if document_title skills \<noteq> [] \<and> document_title skills \<noteq> ''Error''
             then self\<lparr>document_titles := document_titles self @ [document_title skills]\<rparr>
             else self);
          self2 =
            foldl (\<lambda>s tech.
                     if tech_key tech \<noteq> [] \<and> \<not> dict_contains (unique_technologies s) (tech_key tech)
                     then s\<lparr>unique_technologies :=
                              dict_set (unique_technologies s) (tech_key tech) tech\<rparr>
                     else s)
              self1 (technologies skills)
      in foldl (\<lambda>s skill.
                  if skill_key skill \<noteq> [] \<and> \<not> dict_contains (unique_soft_skills s) (skill_key skill)
                  then s\<lparr>unique_soft_skills :=
                           dict_set (unique_soft_skills s) (skill_key skill) skill\<rparr>
                  else s)
           self2 (soft_skills skills))"

text \<open>\<open>str(n)\<close> for a length, used by the title of the combined document.\<close>

fun str_nat :: "nat \<Rightarrow> string" where
  "str_nat n =
     (if n < 10 then [char_of (48 + n)]
      else str_nat (n div 10) @ [char_of (48 + n mod 10)])"

definition get_deduplicated_skills :: "SkillDeduplicator \<Rightarrow> ExtractedSkills" where
  "get_deduplicated_skills self =
     \<lparr>technologies = map snd (unique_technologies self),
      soft_skills = map snd (unique_soft_skills self),
      document_title =
        ''Combined skills from '' @ str_nat (length (document_titles self)) @ '' documents''\<rparr>"

text \<open>Feeding a sequence of documents to a fresh deduplicator, as the loop of
  \<open>process_markdown_files\<close> does, and reading the result.\<close>

definition deduplicate :: "ExtractedSkills list \<Rightarrow> ExtractedSkills" where
  "deduplicate docs =
     get_deduplicated_skills (foldl add_extracted_skills SkillDeduplicator_init docs)"

text \<open>
  What the deduplicator is to return, in words: of a sequence of skills, those whose key
  is not empty and differs from the key of every earlier skill of the sequence.
\<close>

definition first_by_key :: "('a \<Rightarrow> string) \<Rightarrow> 'a list \<Rightarrow> 'a list" where
  "first_by_key key xs =
     map (\<lambda>i. xs ! i)
       (filter (\<lambda>i. key (xs ! i) \<noteq> [] \<and> key (xs ! i) \<notin> key ` set (take i xs))
          [0..<length xs])"

section \<open>Example inputs\<close>

text \<open>
  A two-skill vocabulary and three postings: one asking for \<open>Python, SQL\<close>, one naming
  \<open>Python\<close> twice, and one with no skill-bearing field. The example provider embeds a
  phrase as itself, and the example similarity is 1 on equal phrases, exactly the
  threshold on phrases with the same first character, and 0.1 otherwise.
\<close>

definition ex_study_skills :: "string list" where
  "ex_study_skills = [''Python'', ''Team collaboration'']"

definition ex_encode :: "string \<Rightarrow> string" where
  "ex_encode p = p"

definition ex_sim :: "string \<Rightarrow> string \<Rightarrow> real" where
  "ex_sim a b = (if a = b then 1 else if take 1 a = take 1 b then 0.5 else 0.1)"

definition ex_job_sql :: job where
  "ex_job_sql = \<lparr>title = ''Data engineer'', company = ''Acme'',
     requirements = FStr ''Python, SQL'', technologies_expected = FNone,
     technologies_optional = FNone, specializations = FNone\<rparr>"

definition ex_job_twice :: job where
  "ex_job_twice = \<lparr>title = ''Developer'', company = ''Initech'',
     requirements = FStr ''Python; Python'', technologies_expected = FList ['' Perl '', ''''],
     technologies_optional = FNone, specializations = FStr '' ,; ''\<rparr>"

definition ex_job_none :: job where
  "ex_job_none = \<lparr>title = ''Clerk'', company = '''',
     requirements = FNone, technologies_expected = FStr '''',
     technologies_optional = FList [], specializations = FNone\<rparr>"

text \<open>The aggregator states the example run passes through.\<close>

definition ex_state_1 :: agg_state where
  "ex_state_1 = \<lparr>results = [\<lparr>job_title = ''Data engineer'', company = ''Acme'',
       matched_job_skills = 1, total_job_skills = 2, match_ratio = 1 / 2\<rparr>],
     study_skill_match_counts = [1, 0],
     job_skill_counter = [(''Python'', 1), (''SQL'', 1)]\<rparr>"

definition ex_state_2 :: agg_state where
  "ex_state_2 = \<lparr>results = [\<lparr>job_title = ''Data engineer'', company = ''Acme'',
       matched_job_skills = 1, total_job_skills = 2, match_ratio = 1 / 2\<rparr>,
       \<lparr>job_title = ''Developer'', company = ''Initech'',
       matched_job_skills = 3, total_job_skills = 3, match_ratio = 1\<rparr>],
     study_skill_match_counts = [2, 0],
     job_skill_counter = [(''Python'', 3), (''SQL'', 1), (''Perl'', 1)]\<rparr>"

definition ex_state_3 :: agg_state where
  "ex_state_3 = ex_state_2\<lparr>results := results ex_state_2 @
       [\<lparr>job_title = ''Clerk'', company = '''',
         matched_job_skills = 0, total_job_skills = 0, match_ratio = 0\<rparr>]\<rparr>"

definition ex_skills_json :: skills_json where
  "ex_skills_json =
     \<lparr>skills_json.technologies = [\<lparr>technology_json.name = ''Python''\<rparr>],
      soft_skills = [\<lparr>soft_skill_json.name = ''Teamwork'',
                      description = Some ''Team collaboration''\<rparr>]\<rparr>"

definition empty_skills_json :: skills_json where
  "empty_skills_json = \<lparr>skills_json.technologies = [], soft_skills = []\<rparr>"

text \<open>
  Two extracted documents: the second repeats \<open>Python\<close> in another casing and with
  padding, and carries a skill whose name is only blanks.
\<close>

definition ex_doc_1 :: ExtractedSkills where
  "ex_doc_1 =
     \<lparr>technologies = [\<lparr>TechnologySkill.name = ''Python'', category = ''Programming Language''\<rparr>,
                      \<lparr>TechnologySkill.name = ''Docker'', category = ''DevOps Tool''\<rparr>],
      soft_skills = [\<lparr>SoftSkill.name = ''Teamwork'', description = ''Working in a team''\<rparr>],
      document_title = ''Algorithms''\<rparr>"

definition ex_doc_2 :: ExtractedSkills where
  "ex_doc_2 =
     \<lparr>technologies = [\<lparr>TechnologySkill.name = '' PYTHON '', category = ''Language''\<rparr>,
                      \<lparr>TechnologySkill.name = ''  '', category = ''Unknown''\<rparr>,
                      \<lparr>TechnologySkill.name = ''SQL'', category = ''Database''\<rparr>],
      soft_skills = [\<lparr>SoftSkill.name = ''teamwork'', description = ''Group projects''\<rparr>,
                     \<lparr>SoftSkill.name = [], description = ''Nameless''\<rparr>],
      document_title = ''Error''\<rparr>"

text \<open>
  A posting whose only phrase is \<open>Perl\<close>, and the one-skill vocabulary \<open>Python\<close>: the
  similarity of the pair is exactly the threshold.
\<close>

definition ex_job_perl :: job where
  "ex_job_perl = \<lparr>title = ''Sysadmin'', company = ''Globex'',
     requirements = FStr ''Perl'', technologies_expected = FNone,
     technologies_optional = FNone, specializations = FNone\<rparr>"

section \<open>Facts about the normalizer\<close>

lemma strip_Nil: "strip [] = []"
  by (simp add: strip_def)

lemma rev_dropWhile_rev_hd:
  assumes "\<not> P a"
  shows "\<exists>zs. rev (dropWhile P (rev (a # as))) = a # zs"
proof (cases "\<forall>x\<in>set (rev as). P x")
  case True
  then have "dropWhile P (rev as @ [a]) = [a]"
    using assms by (simp add: dropWhile_append)
  then show ?thesis by simp
next
  case False
  then have "dropWhile P (rev as @ [a]) = dropWhile P (rev as) @ [a]"
    by (simp add: dropWhile_append)
  then show ?thesis by simp
qed

lemma trim_left_done:
  "dropWhile P (rev (dropWhile P (rev (dropWhile P s)))) = rev (dropWhile P (rev (dropWhile P s)))"
proof (cases "dropWhile P s")
  case Nil
  show ?thesis unfolding Nil by simp
next
  case (Cons a as)
  then have na: "\<not> P a"
    by (metis hd_dropWhile list.sel(1) list.distinct(1))
  from rev_dropWhile_rev_hd [of P a as, OF na]
  obtain zs where "rev (dropWhile P (rev (a # as))) = a # zs" by blast
  then show ?thesis unfolding Cons using na by simp
qed

lemma strip_strip: "strip (strip s) = strip s"
  unfolding strip_def by (simp only: trim_left_done rev_rev_ident dropWhile_idem)

lemma strip_nonempty: "strip x \<noteq> [] \<Longrightarrow> x \<noteq> []"
  by (auto simp: strip_def)

lemma concat_map_if: "concat (map (\<lambda>x. if P x then [f x] else []) xs) = map f (filter P xs)"
  by (induction xs) simp_all

lemma split_items_eq:
  "split_items s =
     filter (\<lambda>t. t \<noteq> []) (map strip (concat (map (split CHR '','') (split CHR '';'' s))))"
proof -
  have "foldl (\<lambda>items part. items @ [strip x. x \<leftarrow> split CHR '','' part, strip x \<noteq> []]) acc ps
        = acc @ filter (\<lambda>t. t \<noteq> []) (map strip (concat (map (split CHR '','') ps)))" for acc ps
    by (induction ps arbitrary: acc) (simp_all add: concat_map_if filter_map comp_def)
  from this [of "[]"] show ?thesis by (simp add: split_items_def)
qed

lemma field_texts_eq:
  "(if truthy v then [strip x. x \<leftarrow> field_items v, x \<noteq> [] \<and> strip x \<noteq> []] else [])
     = field_phrases_spec v"
proof (cases v)
  case FNone
  then show ?thesis by simp
next
  case (FStr s)
  then show ?thesis
    by (auto simp: concat_map_if split_items_eq filter_map comp_def strip_strip strip_Nil
             intro!: filter_cong dest: strip_nonempty)
next
  case (FList xs)
  then show ?thesis
    by (auto simp: concat_map_if filter_map comp_def strip_Nil
             intro!: filter_cong arg_cong[where f="map strip"] dest: strip_nonempty)
qed

lemma extract_eq_spec: "extract_job_skill_texts j = phrases_spec j"
  unfolding extract_job_skill_texts_def phrases_spec_def job_fields_def
  by (simp add: Let_def field_texts_eq [symmetric] del: field_phrases_spec.simps)

lemma field_phrases_spec_trimmed:
  "p \<in> set (field_phrases_spec v) \<Longrightarrow> p \<noteq> [] \<and> strip p = p"
  by (cases v) (auto simp: strip_strip)

section \<open>Facts about matching one posting\<close>

lemma cos_sim_Inr:
  "texts \<noteq> [] \<Longrightarrow> se \<noteq> [] \<Longrightarrow>
   cos_sim sim (map encode texts) se = Inr (map (\<lambda>p. map (sim (encode p)) se) texts)"
  by (simp add: cos_sim_def comp_def)

lemma cos_sim_Inl: "se = [] \<Longrightarrow> cos_sim sim a se = Inl RuntimeError"
  by (simp add: cos_sim_def)

lemma match_matrix_eq:
  "ge_threshold (map (\<lambda>p. map (sim (encode p)) se) texts)
     = map (\<lambda>p. map (\<lambda>s. sim (encode p) s \<ge> SIMILARITY_THRESHOLD) se) texts"
  by (simp add: ge_threshold_def)

lemma any_dim1_eq:
  "any_dim1 (ge_threshold (map (\<lambda>p. map (sim (encode p)) se) texts))
     = map (\<lambda>p. \<exists>s\<in>set se. sim (encode p) s \<ge> SIMILARITY_THRESHOLD) texts"
  unfolding match_matrix_eq any_dim1_def by (simp add: list_ex_iff)

lemma any_dim0_eq:
  "any_dim0 (length se) (ge_threshold (map (\<lambda>p. map (sim (encode p)) se) texts))
     = map (\<lambda>s. \<exists>p\<in>set texts. sim (encode p) s \<ge> SIMILARITY_THRESHOLD) se"
  unfolding match_matrix_eq any_dim0_def by (rule nth_equalityI) (simp_all add: list_ex_iff)

lemma sum_bool_map: "sum_bool (map P xs) = int (length (filter P xs))"
  by (simp add: sum_bool_def filter_map comp_def)

lemma process_job_nonempty:
  assumes "extract_job_skill_texts j \<noteq> []" and "se \<noteq> []"
  shows "process_job encode sim se st j =
     Inr (st\<lparr>job_skill_counter := count_job_skills (job_skill_counter st) (extract_job_skill_texts j),
            study_skill_match_counts :=
              map (\<lambda>(a, b). a + (if b then 1 else 0))
                (zip (study_skill_match_counts st)
                   (map (\<lambda>s. \<exists>p\<in>set (extract_job_skill_texts j). sim (encode p) s \<ge> SIMILARITY_THRESHOLD) se)),
            results := results st @
              [\<lparr>job_title = title j, company = job.company j,
                matched_job_skills = int (length (filter (\<lambda>p. \<exists>s\<in>set se. sim (encode p) s \<ge> SIMILARITY_THRESHOLD) (extract_job_skill_texts j))),
                total_job_skills = int (length (extract_job_skill_texts j)),
                match_ratio = real_of_int (int (length (filter (\<lambda>p. \<exists>s\<in>set se. sim (encode p) s \<ge> SIMILARITY_THRESHOLD) (extract_job_skill_texts j))))
                               / real_of_int (int (length (extract_job_skill_texts j)))\<rparr>]\<rparr>)"
  unfolding process_job_def Let_def cos_sim_Inr [OF assms] sum.case
    any_dim1_eq any_dim0_eq sum_bool_map
  using assms by (simp add: truediv_def)

lemma process_job_raises:
  assumes "extract_job_skill_texts j \<noteq> []" and "se = []"
  shows "process_job encode sim se st j = Inl RuntimeError"
  unfolding process_job_def Let_def cos_sim_Inl [OF assms(2)] using assms(1) by simp

lemma process_job_empty:
  assumes "extract_job_skill_texts j = []"
  shows "process_job encode sim se st j =
     Inr (st\<lparr>results := results st @
              [\<lparr>job_title = title j, company = job.company j, matched_job_skills = 0,
                total_job_skills = 0, match_ratio = 0\<rparr>]\<rparr>)"
  unfolding process_job_def Let_def using assms by (simp add: count_job_skills_def)

lemma process_job_total:
  "se \<noteq> [] \<or> extract_job_skill_texts j = [] \<Longrightarrow> \<exists>st'. process_job encode sim se st j = Inr st'"
  by (cases "extract_job_skill_texts j = []") (auto simp: process_job_empty process_job_nonempty)

lemma process_job_Inr_cases:
  assumes "process_job encode sim se st j = Inr st'"
  shows "se \<noteq> [] \<or> extract_job_skill_texts j = []"
proof (rule ccontr)
  assume "\<not> (se \<noteq> [] \<or> extract_job_skill_texts j = [])"
  then have "extract_job_skill_texts j \<noteq> []" and "se = []" by auto
  from process_job_raises [OF this] assms show False by simp
qed

lemma zip_add_zero:
  "length cs = length se \<Longrightarrow> map (\<lambda>(c, s). c + (if False then 1 else (0::int))) (zip cs se) = cs"
  by (induction cs se rule: list_induct2) simp_all

lemma zip_map_snd:
  "map (\<lambda>(a, b). f a b) (zip xs (map g ys)) = map (\<lambda>(a, s). f a (g s)) (zip xs ys)"
  by (induction xs arbitrary: ys) (simp, case_tac ys, simp_all)

lemma process_job_counts:
  assumes "length (study_skill_match_counts st) = length se"
    and "process_job encode sim se st j = Inr st'"
  shows "study_skill_match_counts st' =
           map (\<lambda>(c, s). c + (if \<exists>p\<in>set (extract_job_skill_texts j).
                                   sim (encode p) s \<ge> SIMILARITY_THRESHOLD then 1 else 0))
             (zip (study_skill_match_counts st) se)"
proof (cases "extract_job_skill_texts j = []")
  case True
  with assms(2) have "study_skill_match_counts st' = study_skill_match_counts st"
    by (auto simp: process_job_empty)
  then show ?thesis using True zip_add_zero [OF assms(1)] by simp
next
  case False
  with process_job_Inr_cases [OF assms(2)] have ne: "se \<noteq> []" by simp
  from assms(2) have "study_skill_match_counts st' =
     map (\<lambda>(a, b). a + (if b then 1 else 0))
       (zip (study_skill_match_counts st)
          (map (\<lambda>s. \<exists>p\<in>set (extract_job_skill_texts j). sim (encode p) s \<ge> SIMILARITY_THRESHOLD) se))"
    unfolding process_job_nonempty [OF False ne] by auto
  then show ?thesis by (simp only: zip_map_snd)
qed

lemma counts_step_bounds:
  assumes "length cs = length se"
  shows "list_all2 (\<lambda>a b. a \<le> b \<and> b \<le> a + 1) cs
           (map (\<lambda>(c, s). c + (if P s then 1 else (0::int))) (zip cs se))"
  using assms by (induction cs se rule: list_induct2) simp_all

lemma process_jobs_total:
  "se \<noteq> [] \<Longrightarrow> \<exists>st'. process_jobs encode sim se st jobs = Inr st'"
proof (induction jobs arbitrary: st)
  case Nil
  then show ?case by simp
next
  case (Cons j js)
  from process_job_total [of se j encode sim st] Cons.prems
  obtain st1 where "process_job encode sim se st j = Inr st1" by blast
  with Cons.IH [OF Cons.prems, of st1] show ?case by simp
qed

lemma process_jobs_Cons_Inr:
  assumes "process_jobs encode sim se st (j # js) = Inr st'"
  obtains st1 where "process_job encode sim se st j = Inr st1"
    and "process_jobs encode sim se st1 js = Inr st'"
  using assms by (auto split: sum.splits)

lemma process_jobs_append:
  "process_jobs encode sim se st (pre @ [j]) = Inr st' \<longleftrightarrow>
     (\<exists>st1. process_jobs encode sim se st pre = Inr st1 \<and> process_job encode sim se st1 j = Inr st')"
  by (induction pre arbitrary: st) (auto split: sum.splits)

lemma process_jobs_counts:
  assumes "length (study_skill_match_counts st) = length se"
    and "process_jobs encode sim se st jobs = Inr st'"
  shows "list_all2 (\<lambda>a b. a \<le> b \<and> b \<le> a + int (length jobs))
           (study_skill_match_counts st) (study_skill_match_counts st')"
  using assms
proof (induction jobs arbitrary: st)
  case Nil
  then show ?case by (simp add: list_all2_same)
next
  case (Cons j js)
  from Cons.prems(2) obtain st1 where
    s1: "process_job encode sim se st j = Inr st1" and
    s2: "process_jobs encode sim se st1 js = Inr st'"
    by (rule process_jobs_Cons_Inr)
  let ?c1 = "study_skill_match_counts st1"
  have c1: "list_all2 (\<lambda>a b. a \<le> b \<and> b \<le> a + 1) (study_skill_match_counts st) ?c1"
    unfolding process_job_counts [OF Cons.prems(1) s1] by (rule counts_step_bounds [OF Cons.prems(1)])
  then have len1: "length ?c1 = length se"
    using Cons.prems(1) by (simp add: list_all2_lengthD [symmetric])
  from Cons.IH [OF len1 s2] have
    c2: "list_all2 (\<lambda>a b. a \<le> b \<and> b \<le> a + int (length js)) ?c1 (study_skill_match_counts st')" .
  show ?case
    by (rule list_all2_trans [OF _ c1 c2]) simp
qed

section \<open>Facts about the frequency mapping\<close>

lemma map_of_dict_set: "map_of (dict_set d k v) = (map_of d)(k \<mapsto> v)"
  by (induction d k v rule: dict_set.induct) (auto simp: fun_eq_iff)

lemma dict_get_dict_set:
  "dict_get (dict_set d k v) k' dflt = (if k' = k then v else dict_get d k' dflt)"
  by (simp add: dict_get_def map_of_dict_set)

lemma keys_dict_set: "set (map fst (dict_set d k v)) = insert k (set (map fst d))"
  by (induction d k v rule: dict_set.induct) auto

lemma distinct_dict_set: "distinct (map fst d) \<Longrightarrow> distinct (map fst (dict_set d k v))"
  by (induction d k v rule: dict_set.induct) (auto simp: keys_dict_set [simplified])

lemma sum_dict_bump:
  "sum_list (map snd (dict_set d k (dict_get d k 0 + 1))) = sum_list (map snd d) + (1::int)"
proof (induction d)
  case Nil
  then show ?case by (simp add: dict_get_def)
next
  case (Cons kv d)
  obtain k' v' where kv: "kv = (k', v')" by (cases kv)
  show ?case
  proof (cases "k' = k")
    case True
    then show ?thesis by (simp add: kv dict_get_def)
  next
    case False
    then have "dict_get (kv # d) k 0 = dict_get d k 0" by (simp add: kv dict_get_def)
    then show ?thesis using False Cons.IH by (simp add: kv)
  qed
qed

lemma count_job_skills_get:
  "dict_get (count_job_skills c texts) k 0 = dict_get c k 0 + int (count_list texts k)"
  unfolding count_job_skills_def
  by (induction texts arbitrary: c) (simp_all add: dict_get_dict_set)

lemma count_job_skills_sum:
  "sum_list (map snd (count_job_skills c texts)) = sum_list (map snd c) + int (length texts)"
  unfolding count_job_skills_def
  by (induction texts arbitrary: c) (simp_all add: sum_dict_bump)

lemma count_job_skills_distinct:
  "distinct (map fst c) \<Longrightarrow> distinct (map fst (count_job_skills c texts))"
  unfolding count_job_skills_def
  by (induction texts arbitrary: c) (simp_all add: distinct_dict_set)

lemma count_job_skills_append:
  "count_job_skills c (xs @ ys) = count_job_skills (count_job_skills c xs) ys"
  by (simp add: count_job_skills_def)

lemma process_job_counter:
  "process_job encode sim se st j = Inr st' \<Longrightarrow>
   job_skill_counter st' = count_job_skills (job_skill_counter st) (extract_job_skill_texts j)"
proof (cases "extract_job_skill_texts j = []")
  case True
  assume "process_job encode sim se st j = Inr st'"
  with True show ?thesis by (auto simp: process_job_empty count_job_skills_def)
next
  case False
  assume a: "process_job encode sim se st j = Inr st'"
  with False process_job_Inr_cases [OF a] have ne: "se \<noteq> []" by simp
  from a show ?thesis unfolding process_job_nonempty [OF False ne] by auto
qed

lemma process_jobs_counter:
  "process_jobs encode sim se st jobs = Inr st' \<Longrightarrow>
     job_skill_counter st' =
       count_job_skills (job_skill_counter st) (concat (map extract_job_skill_texts jobs))"
proof (induction jobs arbitrary: st)
  case Nil
  then show ?case by (simp add: count_job_skills_def)
next
  case (Cons j js)
  from Cons.prems obtain st1 where
    s1: "process_job encode sim se st j = Inr st1" and
    s2: "process_jobs encode sim se st1 js = Inr st'"
    by (rule process_jobs_Cons_Inr)
  from Cons.IH [OF s2] show ?case
    by (simp add: process_job_counter [OF s1] count_job_skills_append)
qed

section \<open>The example inputs, evaluated\<close>

lemma ex_texts:
  "extract_job_skill_texts ex_job_sql = [''Python'', ''SQL'']"
  "extract_job_skill_texts ex_job_twice = [''Python'', ''Python'', ''Perl'']"
  "extract_job_skill_texts ex_job_none = []"
  by code_simp+

lemma ex_step_1:
  "process_job ex_encode ex_sim (map ex_encode ex_study_skills) (initial_state 2) ex_job_sql = Inr ex_state_1"
  by code_simp

lemma ex_step_2:
  "process_job ex_encode ex_sim (map ex_encode ex_study_skills) ex_state_1 ex_job_twice = Inr ex_state_2"
  by code_simp

lemma ex_step_3:
  "process_job ex_encode ex_sim (map ex_encode ex_study_skills) ex_state_2 ex_job_none = Inr ex_state_3"
  by code_simp

lemma ex_run:
  "process_jobs ex_encode ex_sim (map ex_encode ex_study_skills) (initial_state 2) [ex_job_sql] = Inr ex_state_1"
  "process_jobs ex_encode ex_sim (map ex_encode ex_study_skills) (initial_state 2)
     [ex_job_sql, ex_job_twice, ex_job_none] = Inr ex_state_3"
  by (simp_all add: ex_step_1 ex_step_2 ex_step_3)

lemma ex_run_2:
  "process_jobs ex_encode ex_sim (map ex_encode ex_study_skills) (initial_state 2)
     ([ex_job_sql] @ [ex_job_twice]) = Inr ex_state_2"
  by (simp add: ex_step_1 ex_step_2)

lemma ex_perl:
  "extract_job_skill_texts ex_job_perl = [''Perl'']"
  "process_job ex_encode ex_sim [] (initial_state 0) ex_job_sql = Inl RuntimeError"
  by code_simp+

lemma ex_length: "length (map ex_encode ex_study_skills) = 2"
  by (simp add: ex_study_skills_def)

lemma ex_state_fields:
  "study_skill_match_counts ex_state_1 = [1, 0]"
  "study_skill_match_counts ex_state_2 = [2, 0]"
  "study_skill_match_counts ex_state_3 = [2, 0]"
  "job_skill_counter ex_state_3 = [(''Python'', 3), (''SQL'', 1), (''Perl'', 1)]"
  "results ex_state_2 = results ex_state_1 @
     [\<lparr>job_title = ''Developer'', company = ''Initech'',
       matched_job_skills = 3, total_job_skills = 3, match_ratio = 1\<rparr>]"
  "results ex_state_3 = results ex_state_2 @
     [\<lparr>job_title = ''Clerk'', company = '''',
       matched_job_skills = 0, total_job_skills = 0, match_ratio = 0\<rparr>]"
  by (simp_all add: ex_state_1_def ex_state_2_def ex_state_3_def)

section \<open>Facts about the deduplicator\<close>

lemma first_by_key_Nil: "first_by_key key [] = []"
  by (simp add: first_by_key_def)

lemma first_by_key_snoc:
  "first_by_key key (xs @ [x]) =
     first_by_key key xs @ (if key x \<noteq> [] \<and> key x \<notin> key ` set xs then [x] else [])"
proof -
  have "filter (\<lambda>i. key ((xs @ [x]) ! i) \<noteq> [] \<and> key ((xs @ [x]) ! i) \<notin> key ` set (take i (xs @ [x])))
          [0..<length xs]
        = filter (\<lambda>i. key (xs ! i) \<noteq> [] \<and> key (xs ! i) \<notin> key ` set (take i xs)) [0..<length xs]"
    by (rule filter_cong) (simp_all add: nth_append)
  moreover have "map (\<lambda>i. (xs @ [x]) ! i) (filter P [0..<length xs])
        = map (\<lambda>i. xs ! i) (filter P [0..<length xs])" for P
    by (rule map_cong) (simp_all add: nth_append)
  ultimately show ?thesis
    by (simp add: first_by_key_def)
qed

lemma keys_first_by_key: "key ` set (first_by_key key xs) = key ` set xs - {[]}"
  by (induction xs rule: rev_induct) (auto simp: first_by_key_Nil first_by_key_snoc)

lemma distinct_first_by_key: "distinct (map key (first_by_key key xs))"
proof (induction xs rule: rev_induct)
  case Nil
  then show ?case by (simp add: first_by_key_Nil)
next
  case (snoc x xs)
  have "key x \<notin> key ` set xs \<Longrightarrow> key x \<notin> key ` set (first_by_key key xs)"
    by (simp add: keys_first_by_key)
  with snoc show ?case by (auto simp: first_by_key_snoc)
qed

lemma set_first_by_key: "set (first_by_key key xs) \<subseteq> set xs"
  by (induction xs rule: rev_induct) (auto simp: first_by_key_Nil first_by_key_snoc)

lemma dict_set_fresh: "k \<notin> fst ` set d \<Longrightarrow> dict_set d k v = d @ [(k, v)]"
  by (induction d k v rule: dict_set.induct) auto

lemma dict_contains_iff: "dict_contains d k \<longleftrightarrow> k \<in> fst ` set d"
  by (simp add: dict_contains_def map_of_eq_None_iff)

lemma dedup_loop:
  "foldl (\<lambda>d x. if key x \<noteq> [] \<and> \<not> dict_contains d (key x) then dict_set d (key x) x else d)
     (map (\<lambda>x. (key x, x)) (first_by_key key prev)) xs
   = map (\<lambda>x. (key x, x)) (first_by_key key (prev @ xs))"
proof (induction xs arbitrary: prev)
  case Nil
  then show ?case by simp
next
  case (Cons x xs)
  have keys: "fst ` set (map (\<lambda>x. (key x, x)) (first_by_key key prev)) = key ` set prev - {[]}"
    by (simp add: image_image keys_first_by_key)
  have step: "(if key x \<noteq> [] \<and> \<not> dict_contains (map (\<lambda>x. (key x, x)) (first_by_key key prev)) (key x)
         then dict_set (map (\<lambda>x. (key x, x)) (first_by_key key prev)) (key x) x
         else map (\<lambda>x. (key x, x)) (first_by_key key prev))
        = map (\<lambda>x. (key x, x)) (first_by_key key (prev @ [x]))"
  proof (cases "key x \<noteq> [] \<and> key x \<notin> key ` set prev")
    case True
    then have "key x \<notin> fst ` set (map (\<lambda>x. (key x, x)) (first_by_key key prev))"
      unfolding keys by simp
    from dict_set_fresh [OF this] True show ?thesis
      unfolding dict_contains_iff keys by (simp add: first_by_key_snoc)
  next
    case False
    then show ?thesis
      unfolding dict_contains_iff keys by (auto simp: first_by_key_snoc)
  qed
  show ?case
    using Cons.IH [of "prev @ [x]"] by (simp only: foldl_Cons step) simp
qed

lemma tech_loop:
  "foldl (\<lambda>s tech.
            if tech_key tech \<noteq> [] \<and> \<not> dict_contains (unique_technologies s) (tech_key tech)
            then s\<lparr>unique_technologies := dict_set (unique_technologies s) (tech_key tech) tech\<rparr>
            else s) self techs
   = self\<lparr>unique_technologies :=
       foldl (\<lambda>d x. if tech_key x \<noteq> [] \<and> \<not> dict_contains d (tech_key x)
                     then dict_set d (tech_key x) x else d) (unique_technologies self) techs\<rparr>"
  by (induction techs arbitrary: self) simp_all

lemma skill_loop:
  "foldl (\<lambda>s skill.
            if skill_key skill \<noteq> [] \<and> \<not> dict_contains (unique_soft_skills s) (skill_key skill)
            then s\<lparr>unique_soft_skills := dict_set (unique_soft_skills s) (skill_key skill) skill\<rparr>
            else s) self skills
   = self\<lparr>unique_soft_skills :=
       foldl (\<lambda>d x. if skill_key x \<noteq> [] \<and> \<not> dict_contains d (skill_key x)
                     then dict_set d (skill_key x) x else d) (unique_soft_skills self) skills\<rparr>"
  by (induction skills arbitrary: self) simp_all

lemma add_extracted_skills_dicts:
  assumes "unique_technologies self = map (\<lambda>x. (tech_key x, x)) (first_by_key tech_key ts)"
    and "unique_soft_skills self = map (\<lambda>x. (skill_key x, x)) (first_by_key skill_key ss)"
  shows "unique_technologies (add_extracted_skills self doc)
           = map (\<lambda>x. (tech_key x, x)) (first_by_key tech_key (ts @ technologies doc))"
    and "unique_soft_skills (add_extracted_skills self doc)
           = map (\<lambda>x. (skill_key x, x)) (first_by_key skill_key (ss @ soft_skills doc))"
  unfolding add_extracted_skills_def Let_def tech_loop skill_loop
  using assms by (simp_all add: dedup_loop)

lemma foldl_add_dicts:
  assumes "unique_technologies self = map (\<lambda>x. (tech_key x, x)) (first_by_key tech_key ts)"
    and "unique_soft_skills self = map (\<lambda>x. (skill_key x, x)) (first_by_key skill_key ss)"
  shows "unique_technologies (foldl add_extracted_skills self docs)
           = map (\<lambda>x. (tech_key x, x)) (first_by_key tech_key (ts @ concat (map technologies docs)))
       \<and> unique_soft_skills (foldl add_extracted_skills self docs)
           = map (\<lambda>x. (skill_key x, x)) (first_by_key skill_key (ss @ concat (map soft_skills docs)))"
  using assms
proof (induction docs arbitrary: self ts ss)
  case Nil
  then show ?case by simp
next
  case (Cons d docs)
  from Cons.IH [OF add_extracted_skills_dicts [OF Cons.prems]]
  show ?case by simp
qed

lemma deduplicate_eq:
  "technologies (deduplicate docs) = first_by_key tech_key (concat (map technologies docs))"
  "soft_skills (deduplicate docs) = first_by_key skill_key (concat (map soft_skills docs))"
  using foldl_add_dicts [of SkillDeduplicator_init "[]" "[]" docs]
  by (simp_all add: deduplicate_def get_deduplicated_skills_def SkillDeduplicator_init_def
        first_by_key_Nil comp_def)

lemma lower_space: "is_space c \<Longrightarrow> lower_char c = c"
  by (auto simp: is_space_def lower_char_def Let_def)

lemma blank_key: "\<forall>c \<in> set s. is_space c \<Longrightarrow> strip (lower s) = []"
proof -
  assume a: "\<forall>c \<in> set s. is_space c"
  then have l: "lower s = s" by (simp add: lower_def lower_space map_idI)
  from a have d: "dropWhile is_space s = []" by (simp add: dropWhile_eq_Nil_conv)
  show ?thesis unfolding strip_def l d by simp
qed

lemma first_by_key_first:
  assumes "t \<in> set (first_by_key key xs)"
  shows "\<exists>i < length xs. xs ! i = t \<and> key t \<noteq> [] \<and> (\<forall>j < i. key (xs ! j) \<noteq> key t)"
proof -
  from assms have "t \<in> (\<lambda>i. xs ! i) `
      {i \<in> set [0..<length xs]. key (xs ! i) \<noteq> [] \<and> key (xs ! i) \<notin> key ` set (take i xs)}"
    unfolding first_by_key_def by (simp only: set_map set_filter)
  then obtain i where i: "i < length xs" "xs ! i = t" "key (xs ! i) \<noteq> []"
    "key (xs ! i) \<notin> key ` set (take i xs)"
    by auto
  have "key (xs ! j) \<noteq> key t" if "j < i" for j
  proof -
    from that i(1) have "j < length (take i xs)" by simp
    then have "take i xs ! j \<in> set (take i xs)" by (rule nth_mem)
    moreover have "take i xs ! j = xs ! j" using that by simp
    ultimately have "key (xs ! j) \<in> key ` set (take i xs)" by (metis imageI)
    with i(4) show ?thesis unfolding i(2) by metis
  qed
  with i show ?thesis by blast
qed

lemma ex_dedup:
  "technologies (deduplicate [ex_doc_1, ex_doc_2]) =
     [\<lparr>TechnologySkill.name = ''Python'', category = ''Programming Language''\<rparr>,
      \<lparr>TechnologySkill.name = ''Docker'', category = ''DevOps Tool''\<rparr>,
      \<lparr>TechnologySkill.name = ''SQL'', category = ''Database''\<rparr>]"
  "soft_skills (deduplicate [ex_doc_1, ex_doc_2]) =
     [\<lparr>SoftSkill.name = ''Teamwork'', description = ''Working in a team''\<rparr>]"
  by code_simp+



section \<open>The claims\<close>

text \<open>
  Claim C8. The phrases the code extracts from a posting are those of the specification:
  the four fields in the order requirements, technologies_expected,
  technologies_optional, specializations, a list contributing its elements trimmed, a
  scalar string split on semicolons and then on commas with every token trimmed, empty
  tokens dropped. Every phrase of the result is non-empty and trimmed.
\<close>

theorem normalizer_refines_spec:
  "extract_job_skill_texts j = phrases_spec j \<and>
   (\<forall>p \<in> set (extract_job_skill_texts j). p \<noteq> [] \<and> strip p = p)"
  by (auto simp: extract_eq_spec phrases_spec_def dest: field_phrases_spec_trimmed)

text \<open>
  The example's second posting: a semicolon-separated string, a list with a padded and
  an empty element, and a string of separators only.
\<close>

theorem normalizer_refines_spec_witness:
  "extract_job_skill_texts ex_job_twice = [''Python'', ''Python'', ''Perl''] \<and>
   phrases_spec ex_job_twice = [''Python'', ''Python'', ''Perl''] \<and>
   ''Perl'' \<in> set (extract_job_skill_texts ex_job_twice) \<and> strip ''Perl'' = ''Perl''"
proof -
  have t: "extract_job_skill_texts ex_job_twice = [''Python'', ''Python'', ''Perl'']"
    by (rule ex_texts)
  from normalizer_refines_spec [of ex_job_twice]
  have "phrases_spec ex_job_twice = extract_job_skill_texts ex_job_twice"
    and "\<forall>p \<in> set (extract_job_skill_texts ex_job_twice). p \<noteq> [] \<and> strip p = p"
    by simp_all
  then show ?thesis by (simp add: t)
qed

text \<open>
  Claim C1. With an empty study-skill vocabulary and no posting, the run ends in the
  \<open>ValueError\<close> of \<open>idxmax\<close> on the empty coverage list: the headline study skill is
  computed without a guard. The headline job skill is guarded: with a vocabulary and no
  posting the run completes and reports no job skill.
\<close>

theorem empty_vocabulary_raises:
  "main encode sim sort_values empty_skills_json [] = Inl ValueError \<and>
   (\<exists>out. main ex_encode ex_sim sort_desc_stable ex_skills_json [] = Inr out \<and>
      most_needed_job_skill (job_skill_summary out) = None)"
  by (simp add: main_def empty_skills_json_def ex_skills_json_def study_skills_of_def
        initial_state_def index_def data_frame_def)

text \<open>
  Claim C3. With a non-empty vocabulary every run completes. Take any posting \<open>j\<close> that
  a run processes, after the postings \<open>pre\<close>: the state after \<open>pre @ [j]\<close> is the step
  of \<open>j\<close> on the state after \<open>pre\<close>, and in it the coverage counter of each study skill
  has grown by exactly 1 when the skill matches at least one phrase of \<open>j\<close>, however many
  phrases it matches, and by 0 otherwise. After a completed run over \<open>jobs\<close> there is one
  counter per study skill, and each lies between 0 and the number of postings processed.
\<close>

theorem coverage_once_per_posting:
  "(se \<noteq> [] \<longrightarrow>
      (\<exists>fin. process_jobs encode sim se (initial_state (length se)) jobs = Inr fin)) \<and>
   (\<forall>st'. process_jobs encode sim se (initial_state (length se)) (pre @ [j]) = Inr st' \<longrightarrow>
      (\<exists>st. process_jobs encode sim se (initial_state (length se)) pre = Inr st \<and>
         process_job encode sim se st j = Inr st' \<and>
         length (study_skill_match_counts st) = length se \<and>
         study_skill_match_counts st' =
           map (\<lambda>(c, s). c + (if \<exists>p\<in>set (extract_job_skill_texts j).
                                   sim (encode p) s \<ge> SIMILARITY_THRESHOLD then 1 else 0))
             (zip (study_skill_match_counts st) se))) \<and>
   (\<forall>fin. process_jobs encode sim se (initial_state (length se)) jobs = Inr fin \<longrightarrow>
      length (study_skill_match_counts fin) = length se \<and>
      (\<forall>c \<in> set (study_skill_match_counts fin). 0 \<le> c \<and> c \<le> int (length jobs)))"
proof -
  let ?init = "initial_state (length se)"
  have len0: "length (study_skill_match_counts ?init) = length se"
    by (simp add: initial_state_def)
  have run: "length (study_skill_match_counts fin) = length se \<and>
       (\<forall>c \<in> set (study_skill_match_counts fin). 0 \<le> c \<and> c \<le> int (length js))"
    if r: "process_jobs encode sim se ?init js = Inr fin" for js fin
  proof -
    from process_jobs_counts [OF len0 r] have
      b: "list_all2 (\<lambda>a b. a \<le> b \<and> b \<le> a + int (length js))
            (replicate (length se) 0) (study_skill_match_counts fin)"
      by (simp add: initial_state_def)
    from b have l: "length (study_skill_match_counts fin) = length se"
      by (simp add: list_all2_lengthD [symmetric])
    have "0 \<le> c \<and> c \<le> int (length js)" if "c \<in> set (study_skill_match_counts fin)" for c
    proof -
      from that obtain i where "i < length (study_skill_match_counts fin)"
        "study_skill_match_counts fin ! i = c" by (auto simp: in_set_conv_nth)
      with b l show ?thesis by (auto simp: list_all2_conv_all_nth)
    qed
    with l show ?thesis by blast
  qed
  have step: "\<exists>st. process_jobs encode sim se ?init pre = Inr st \<and>
         process_job encode sim se st j = Inr st' \<and>
         length (study_skill_match_counts st) = length se \<and>
         study_skill_match_counts st' =
           map (\<lambda>(c, s). c + (if \<exists>p\<in>set (extract_job_skill_texts j).
                                   sim (encode p) s \<ge> SIMILARITY_THRESHOLD then 1 else 0))
             (zip (study_skill_match_counts st) se)"
    if r: "process_jobs encode sim se ?init (pre @ [j]) = Inr st'" for st'
  proof -
    from r obtain st where
      p: "process_jobs encode sim se ?init pre = Inr st" and
      s: "process_job encode sim se st j = Inr st'"
      unfolding process_jobs_append by blast
    from run [OF p] have l: "length (study_skill_match_counts st) = length se" by simp
    from p s l process_job_counts [OF l s] show ?thesis by blast
  qed
  from process_jobs_total [of se encode sim ?init jobs] run [of jobs] step
  show ?thesis by blast
qed

text \<open>
  In the example the second posting names \<open>Python\<close> twice and \<open>Perl\<close> once; all three
  phrases match the study skill \<open>Python\<close>, whose counter goes from 1 to 2. After the
  three postings both counters are at most 3.
\<close>

theorem coverage_once_per_posting_witness:
  "map ex_encode ex_study_skills \<noteq> [] \<and>
   process_jobs ex_encode ex_sim (map ex_encode ex_study_skills) (initial_state 2)
     ([ex_job_sql] @ [ex_job_twice]) = Inr ex_state_2 \<and>
   process_jobs ex_encode ex_sim (map ex_encode ex_study_skills) (initial_state 2)
     [ex_job_sql] = Inr ex_state_1 \<and>
   process_job ex_encode ex_sim (map ex_encode ex_study_skills) ex_state_1 ex_job_twice
     = Inr ex_state_2 \<and>
   study_skill_match_counts ex_state_1 = [1, 0] \<and>
   study_skill_match_counts ex_state_2 = [2, 0] \<and>
   process_jobs ex_encode ex_sim (map ex_encode ex_study_skills) (initial_state 2)
     [ex_job_sql, ex_job_twice, ex_job_none] = Inr ex_state_3 \<and>
   length (study_skill_match_counts ex_state_3) = 2 \<and>
   list_all (\<lambda>c. 0 \<le> c \<and> c \<le> 3) (study_skill_match_counts ex_state_3)"
proof -
  note t = coverage_once_per_posting [where se = "map ex_encode ex_study_skills"
      and encode = ex_encode and sim = ex_sim and pre = "[ex_job_sql]" and j = ex_job_twice
      and jobs = "[ex_job_sql, ex_job_twice, ex_job_none]", unfolded ex_length]
  from t have "\<exists>st. process_jobs ex_encode ex_sim (map ex_encode ex_study_skills)
        (initial_state 2) [ex_job_sql] = Inr st \<and>
      process_job ex_encode ex_sim (map ex_encode ex_study_skills) st ex_job_twice
        = Inr ex_state_2"
    using ex_run_2 by blast
  then have step: "process_job ex_encode ex_sim (map ex_encode ex_study_skills) ex_state_1
      ex_job_twice = Inr ex_state_2"
    unfolding ex_run(1) by simp
  from t ex_run(2) have fin: "length (study_skill_match_counts ex_state_3) = 2 \<and>
      (\<forall>c \<in> set (study_skill_match_counts ex_state_3).
         0 \<le> c \<and> c \<le> int (length [ex_job_sql, ex_job_twice, ex_job_none]))"
    by blast
  have ne: "map ex_encode ex_study_skills \<noteq> []" by (simp add: ex_study_skills_def)
  from fin have "length (study_skill_match_counts ex_state_3) = 2"
    and "list_all (\<lambda>c. 0 \<le> c \<and> c \<le> 3) (study_skill_match_counts ex_state_3)"
    by (simp_all add: list_all_iff)
  with ne step show ?thesis
    by (simp only: ex_run ex_run_2 ex_state_fields simp_thms)
qed

text \<open>
  Claim C4. Processing a posting never divides by zero. It fails only when the vocabulary
  is empty and the posting has a phrase, with the \<open>RuntimeError\<close> of the similarity
  call; otherwise it appends one result row \<open>r\<close>: \<open>matched_job_skills\<close> is the number of
  phrases with at least one match, \<open>total_job_skills\<close> the number of phrases,
  \<open>0 \<le> matched \<le> total\<close>, the ratio is \<open>matched / total\<close> when the total is positive,
  and a posting without phrases gives 0, 0 and ratio 0.
\<close>

theorem job_result_counts:
  "process_job encode sim se st j \<noteq> Inl ZeroDivisionError \<and>
   (se = [] \<and> extract_job_skill_texts j \<noteq> [] \<longrightarrow>
      process_job encode sim se st j = Inl RuntimeError) \<and>
   (se \<noteq> [] \<or> extract_job_skill_texts j = [] \<longrightarrow>
      (\<exists>st' r. process_job encode sim se st j = Inr st' \<and> results st' = results st @ [r] \<and>
         matched_job_skills r =
           int (length (filter (\<lambda>p. \<exists>s\<in>set se. sim (encode p) s \<ge> SIMILARITY_THRESHOLD)
                          (extract_job_skill_texts j))) \<and>
         total_job_skills r = int (length (extract_job_skill_texts j)) \<and>
         0 \<le> matched_job_skills r \<and> matched_job_skills r \<le> total_job_skills r \<and>
         (total_job_skills r > 0 \<longrightarrow>
            match_ratio r = real_of_int (matched_job_skills r) / real_of_int (total_job_skills r)) \<and>
         (extract_job_skill_texts j = [] \<longrightarrow>
            matched_job_skills r = 0 \<and> total_job_skills r = 0 \<and> match_ratio r = 0)))"
proof (cases "extract_job_skill_texts j = []")
  case True
  then show ?thesis by (simp add: process_job_empty)
next
  case False
  show ?thesis
  proof (cases "se = []")
    case True
    with False show ?thesis by (simp add: process_job_raises)
  next
    case ne: False
    show ?thesis unfolding process_job_nonempty [OF False ne] using False ne by simp
  qed
qed

text \<open>
  The empty vocabulary with the example's first posting (the similarity call raises), the
  second posting (three phrases, all matched) and the third (no phrase).
\<close>

theorem job_result_counts_witness:
  "process_job ex_encode ex_sim [] (initial_state 0) ex_job_sql = Inl RuntimeError \<and>
   extract_job_skill_texts ex_job_sql \<noteq> [] \<and>
   map ex_encode ex_study_skills \<noteq> [] \<and>
   (\<exists>st' r. process_job ex_encode ex_sim (map ex_encode ex_study_skills) ex_state_1 ex_job_twice
               = Inr st' \<and> results st' = results ex_state_1 @ [r] \<and>
       0 < total_job_skills r \<and> matched_job_skills r = 3 \<and> total_job_skills r = 3 \<and>
       match_ratio r = 1) \<and>
   (\<exists>st' r. process_job ex_encode ex_sim (map ex_encode ex_study_skills) ex_state_2 ex_job_none
               = Inr st' \<and> results st' = results ex_state_2 @ [r] \<and>
       extract_job_skill_texts ex_job_none = [] \<and>
       matched_job_skills r = 0 \<and> total_job_skills r = 0 \<and> match_ratio r = 0)"
proof -
  have ne: "map ex_encode ex_study_skills \<noteq> []" by (simp add: ex_study_skills_def)
  have a: "process_job ex_encode ex_sim [] (initial_state 0) ex_job_sql = Inl RuntimeError"
    using job_result_counts [of ex_encode ex_sim "[]" "initial_state 0" ex_job_sql]
    by (simp add: ex_texts)
  from job_result_counts [of ex_encode ex_sim "map ex_encode ex_study_skills" ex_state_1 ex_job_twice] ne
  have b: "\<exists>st' r. process_job ex_encode ex_sim (map ex_encode ex_study_skills) ex_state_1 ex_job_twice
               = Inr st' \<and> results st' = results ex_state_1 @ [r] \<and>
       0 < total_job_skills r \<and> matched_job_skills r = 3 \<and> total_job_skills r = 3 \<and>
       match_ratio r = 1"
    by (simp add: ex_texts ex_step_2 ex_state_fields)
  from job_result_counts [of ex_encode ex_sim "map ex_encode ex_study_skills" ex_state_2 ex_job_none]
  have c: "\<exists>st' r. process_job ex_encode ex_sim (map ex_encode ex_study_skills) ex_state_2 ex_job_none
               = Inr st' \<and> results st' = results ex_state_2 @ [r] \<and>
       extract_job_skill_texts ex_job_none = [] \<and>
       matched_job_skills r = 0 \<and> total_job_skills r = 0 \<and> match_ratio r = 0"
    by (simp add: ex_texts ex_step_3 ex_state_fields)
  from a b c ne show ?thesis by (simp add: ex_texts)
qed

text \<open>
  Claim C5. Every occurrence of a job phrase adds exactly one to the entry of its text in
  the frequency mapping, an unseen text starting at 0: counting a list of phrases into any
  counter raises each entry by the number of occurrences of its text, and that is what a
  completed step does with the phrases of its posting. With a non-empty vocabulary every
  run completes; after a completed run from the initial state the mapping has distinct
  keys, the entry of every text is its number of occurrences over all postings (duplicates
  within a posting included, matched or not), and the frequencies sum to the total number
  of phrase occurrences.
\<close>

theorem frequency_counts_occurrences:
  "(\<forall>k. dict_get (count_job_skills c texts) k 0 = dict_get c k 0 + int (count_list texts k)) \<and>
   (\<forall>st st'. process_job encode sim se st j = Inr st' \<longrightarrow>
      job_skill_counter st' = count_job_skills (job_skill_counter st) (extract_job_skill_texts j)) \<and>
   (se \<noteq> [] \<longrightarrow> (\<exists>fin. process_jobs encode sim se (initial_state n) jobs = Inr fin)) \<and>
   (\<forall>fin. process_jobs encode sim se (initial_state n) jobs = Inr fin \<longrightarrow>
      distinct (map fst (job_skill_counter fin)) \<and>
      (\<forall>k. dict_get (job_skill_counter fin) k 0
             = int (count_list (concat (map extract_job_skill_texts jobs)) k)) \<and>
      sum_list (map snd (job_skill_counter fin))
        = int (length (concat (map extract_job_skill_texts jobs))))"
proof -
  have fin: "distinct (map fst (job_skill_counter fin)) \<and>
      (\<forall>k. dict_get (job_skill_counter fin) k 0
             = int (count_list (concat (map extract_job_skill_texts jobs)) k)) \<and>
      sum_list (map snd (job_skill_counter fin))
        = int (length (concat (map extract_job_skill_texts jobs)))"
    if run: "process_jobs encode sim se (initial_state n) jobs = Inr fin" for fin
  proof -
    from process_jobs_counter [OF run] have
      ctr: "job_skill_counter fin =
              count_job_skills [] (concat (map extract_job_skill_texts jobs))"
      by (simp add: initial_state_def)
    have "distinct (map fst (job_skill_counter fin))"
      unfolding ctr by (rule count_job_skills_distinct) simp
    moreover have "dict_get (job_skill_counter fin) k 0
               = int (count_list (concat (map extract_job_skill_texts jobs)) k)" for k
      unfolding ctr count_job_skills_get by (simp add: dict_get_def)
    moreover have "sum_list (map snd (job_skill_counter fin))
          = int (length (concat (map extract_job_skill_texts jobs)))"
      unfolding ctr by (simp only: count_job_skills_sum) simp
    ultimately show ?thesis by blast
  qed
  from fin process_jobs_total [of se encode sim "initial_state n" jobs]
    process_job_counter [of encode sim se _ j]
  show ?thesis by (simp add: count_job_skills_get)
qed

text \<open>
  The example run: \<open>Python\<close> occurs three times over the postings, five phrases in all.
\<close>

theorem frequency_counts_occurrences_witness:
  "dict_get (count_job_skills [(''Python'', 1)] [''Python'', ''SQL'', ''Python'']) ''Python'' 0 = 3 \<and>
   map ex_encode ex_study_skills \<noteq> [] \<and>
   process_job ex_encode ex_sim (map ex_encode ex_study_skills) ex_state_1 ex_job_twice
     = Inr ex_state_2 \<and>
   job_skill_counter ex_state_2 =
     count_job_skills (job_skill_counter ex_state_1) (extract_job_skill_texts ex_job_twice) \<and>
   process_jobs ex_encode ex_sim (map ex_encode ex_study_skills) (initial_state 2)
     [ex_job_sql, ex_job_twice, ex_job_none] = Inr ex_state_3 \<and>
   dict_get (job_skill_counter ex_state_3) ''Python'' 0 = 3 \<and>
   dict_get (job_skill_counter ex_state_3) ''Java'' 0 = 0 \<and>
   sum_list (map snd (job_skill_counter ex_state_3)) = 5"
proof -
  note t = frequency_counts_occurrences [where c = "[(''Python'', 1)]"
      and texts = "[''Python'', ''SQL'', ''Python'']" and encode = ex_encode and sim = ex_sim
      and se = "map ex_encode ex_study_skills" and n = 2 and j = ex_job_twice
      and jobs = "[ex_job_sql, ex_job_twice, ex_job_none]"]
  have ne: "map ex_encode ex_study_skills \<noteq> []" by (simp add: ex_study_skills_def)
  from t have a: "dict_get (count_job_skills [(''Python'', 1)] [''Python'', ''SQL'', ''Python''])
      ''Python'' 0 = 3"
    by (simp add: dict_get_def)
  from t ex_step_2 have b: "job_skill_counter ex_state_2 =
     count_job_skills (job_skill_counter ex_state_1) (extract_job_skill_texts ex_job_twice)"
    by blast
  from t ex_run(2) have c: "(\<forall>k. dict_get (job_skill_counter ex_state_3) k 0
             = int (count_list (concat (map extract_job_skill_texts
                 [ex_job_sql, ex_job_twice, ex_job_none])) k)) \<and>
      sum_list (map snd (job_skill_counter ex_state_3))
        = int (length (concat (map extract_job_skill_texts
            [ex_job_sql, ex_job_twice, ex_job_none])))"
    by blast
  then have "dict_get (job_skill_counter ex_state_3) ''Python'' 0 = 3"
    and "dict_get (job_skill_counter ex_state_3) ''Java'' 0 = 0"
    and "sum_list (map snd (job_skill_counter ex_state_3)) = 5"
    by (simp_all add: ex_texts)
  with a b ne show ?thesis by (simp only: ex_step_2 ex_run simp_thms)
qed

text \<open>
  Claim C6. The threshold is 0.50, and the step of a posting counts a pair of phrase and
  study skill as a match exactly when its similarity is at least 0.50: the matched count
  is the number of phrases with such a study skill, and the coverage counter of a study
  skill grows by one exactly when there is such a phrase. For a posting with the single
  phrase \<open>p\<close> and the vocabulary of the single skill \<open>s\<close>, the pair is counted (matched
  count 1, coverage up by one) if and only if the similarity is at least 0.50; a
  similarity equal to 0.50 is a match.
\<close>

theorem match_iff_at_least_threshold:
  "SIMILARITY_THRESHOLD = 1 / 2 \<and>
   (se \<noteq> [] \<and> extract_job_skill_texts j \<noteq> [] \<and>
    length (study_skill_match_counts st) = length se \<longrightarrow>
      (\<exists>st' r. process_job encode sim se st j = Inr st' \<and> results st' = results st @ [r] \<and>
         matched_job_skills r =
           int (length (filter (\<lambda>p. \<exists>s\<in>set se. sim (encode p) s \<ge> 1 / 2)
                          (extract_job_skill_texts j))) \<and>
         (\<forall>k < length se.
            study_skill_match_counts st' ! k =
              study_skill_match_counts st ! k +
                (if \<exists>p\<in>set (extract_job_skill_texts j). sim (encode p) (se ! k) \<ge> 1 / 2
                 then 1 else 0)))) \<and>
   (extract_job_skill_texts j = [p] \<and> study_skill_match_counts st = [c] \<longrightarrow>
      (\<exists>st' r. process_job encode sim [s] st j = Inr st' \<and> results st' = results st @ [r] \<and>
         (matched_job_skills r = 1 \<longleftrightarrow> sim (encode p) s \<ge> 1 / 2) \<and>
         (matched_job_skills r = 0 \<longleftrightarrow> sim (encode p) s < 1 / 2) \<and>
         (study_skill_match_counts st' = [c + 1] \<longleftrightarrow> sim (encode p) s \<ge> 1 / 2) \<and>
         (study_skill_match_counts st' = [c] \<longleftrightarrow> sim (encode p) s < 1 / 2) \<and>
         (sim (encode p) s = 1 / 2 \<longrightarrow>
            matched_job_skills r = 1 \<and> study_skill_match_counts st' = [c + 1])))"
proof (intro conjI impI)
  show "SIMILARITY_THRESHOLD = 1 / 2" by (simp add: SIMILARITY_THRESHOLD_def)
next
  assume a: "se \<noteq> [] \<and> extract_job_skill_texts j \<noteq> [] \<and>
    length (study_skill_match_counts st) = length se"
  then have ne: "extract_job_skill_texts j \<noteq> []" "se \<noteq> []"
    and l: "length (study_skill_match_counts st) = length se" by simp_all
  show "\<exists>st' r. process_job encode sim se st j = Inr st' \<and> results st' = results st @ [r] \<and>
         matched_job_skills r =
           int (length (filter (\<lambda>p. \<exists>s\<in>set se. sim (encode p) s \<ge> 1 / 2)
                          (extract_job_skill_texts j))) \<and>
         (\<forall>k < length se.
            study_skill_match_counts st' ! k =
              study_skill_match_counts st ! k +
                (if \<exists>p\<in>set (extract_job_skill_texts j). sim (encode p) (se ! k) \<ge> 1 / 2
                 then 1 else 0))"
    unfolding process_job_nonempty [OF ne] using l
    by (simp add: SIMILARITY_THRESHOLD_def)
next
  assume a: "extract_job_skill_texts j = [p] \<and> study_skill_match_counts st = [c]"
  then have t: "extract_job_skill_texts j = [p]" and cs: "study_skill_match_counts st = [c]"
    by simp_all
  have ne: "extract_job_skill_texts j \<noteq> []" "[s] \<noteq> []" using t by simp_all
  show "\<exists>st' r. process_job encode sim [s] st j = Inr st' \<and> results st' = results st @ [r] \<and>
         (matched_job_skills r = 1 \<longleftrightarrow> sim (encode p) s \<ge> 1 / 2) \<and>
         (matched_job_skills r = 0 \<longleftrightarrow> sim (encode p) s < 1 / 2) \<and>
         (study_skill_match_counts st' = [c + 1] \<longleftrightarrow> sim (encode p) s \<ge> 1 / 2) \<and>
         (study_skill_match_counts st' = [c] \<longleftrightarrow> sim (encode p) s < 1 / 2) \<and>
         (sim (encode p) s = 1 / 2 \<longrightarrow>
            matched_job_skills r = 1 \<and> study_skill_match_counts st' = [c + 1])"
    unfolding process_job_nonempty [OF ne] t cs
    by (auto simp: SIMILARITY_THRESHOLD_def)
qed

text \<open>
  \<open>Perl\<close> against \<open>Python\<close> has similarity exactly 0.5 in the example: the posting
  whose only phrase is \<open>Perl\<close> has one matched phrase and raises the counter of
  \<open>Python\<close>. In the second posting of the example all three phrases match \<open>Python\<close>
  and none matches \<open>Team collaboration\<close>.
\<close>

theorem match_iff_at_least_threshold_witness:
  "SIMILARITY_THRESHOLD = 1 / 2 \<and>
   extract_job_skill_texts ex_job_perl = [''Perl''] \<and>
   study_skill_match_counts (initial_state 1) = [0] \<and>
   ex_sim (ex_encode ''Perl'') ''Python'' = 1 / 2 \<and>
   (\<exists>st' r. process_job ex_encode ex_sim [''Python''] (initial_state 1) ex_job_perl = Inr st' \<and>
      results st' = results (initial_state 1) @ [r] \<and>
      matched_job_skills r = 1 \<and> study_skill_match_counts st' = [0 + 1]) \<and>
   map ex_encode ex_study_skills \<noteq> [] \<and> extract_job_skill_texts ex_job_twice \<noteq> [] \<and>
   length (study_skill_match_counts ex_state_1) = length (map ex_encode ex_study_skills) \<and>
   (\<exists>st' r. process_job ex_encode ex_sim (map ex_encode ex_study_skills) ex_state_1 ex_job_twice
       = Inr st' \<and> results st' = results ex_state_1 @ [r] \<and> matched_job_skills r = 3 \<and>
       study_skill_match_counts st' ! 0 = 2 \<and> study_skill_match_counts st' ! 1 = 0)"
proof -
  have s: "ex_sim (ex_encode ''Perl'') ''Python'' = 1 / 2"
    by (simp add: ex_sim_def ex_encode_def)
  have i: "study_skill_match_counts (initial_state 1) = [0]"
    by (simp add: initial_state_def)
  from match_iff_at_least_threshold [where j = ex_job_perl and p = "''Perl''"
      and st = "initial_state 1" and c = 0 and s = "''Python''" and encode = ex_encode
      and sim = ex_sim] ex_perl(1) i s
  have a: "SIMILARITY_THRESHOLD = 1 / 2"
    and b: "\<exists>st' r. process_job ex_encode ex_sim [''Python''] (initial_state 1) ex_job_perl = Inr st' \<and>
      results st' = results (initial_state 1) @ [r] \<and>
      matched_job_skills r = 1 \<and> study_skill_match_counts st' = [0 + 1]"
    by blast+
  have ne: "map ex_encode ex_study_skills \<noteq> []" "extract_job_skill_texts ex_job_twice \<noteq> []"
    "length (study_skill_match_counts ex_state_1) = length (map ex_encode ex_study_skills)"
    by (simp_all add: ex_study_skills_def ex_texts ex_state_fields)
  from match_iff_at_least_threshold [where j = ex_job_twice and st = ex_state_1
      and se = "map ex_encode ex_study_skills" and encode = ex_encode and sim = ex_sim] ne
  have c: "\<exists>st' r. process_job ex_encode ex_sim (map ex_encode ex_study_skills) ex_state_1 ex_job_twice
       = Inr st' \<and> results st' = results ex_state_1 @ [r] \<and> matched_job_skills r = 3 \<and>
       study_skill_match_counts st' ! 0 = 2 \<and> study_skill_match_counts st' ! 1 = 0"
    by (simp add: ex_step_2 ex_state_fields)
  from a b c ne s i ex_perl(1) show ?thesis by simp
qed

text \<open>
  Claim C10. For every sequence of extracted documents, the deduplicated technologies
  are, in order, the technologies whose key (the name lower-cased and trimmed) is not
  empty and was not met before, and likewise the soft skills: the keys of the result are
  distinct and are exactly the non-empty keys of the input, every skill of the result is
  the unchanged first skill of the input with its key, and no skill of the result has an
  empty or blank name.
\<close>

theorem deduplicate_keeps_first:
  "technologies (deduplicate docs) = first_by_key tech_key (concat (map technologies docs)) \<and>
   soft_skills (deduplicate docs) = first_by_key skill_key (concat (map soft_skills docs)) \<and>
   distinct (map tech_key (technologies (deduplicate docs))) \<and>
   distinct (map skill_key (soft_skills (deduplicate docs))) \<and>
   tech_key ` set (technologies (deduplicate docs))
     = tech_key ` set (concat (map technologies docs)) - {[]} \<and>
   skill_key ` set (soft_skills (deduplicate docs))
     = skill_key ` set (concat (map soft_skills docs)) - {[]} \<and>
   (\<forall>t \<in> set (technologies (deduplicate docs)).
      \<not> (\<forall>c \<in> set (TechnologySkill.name t). is_space c) \<and>
      (\<exists>i < length (concat (map technologies docs)).
         concat (map technologies docs) ! i = t \<and>
         (\<forall>k < i. tech_key (concat (map technologies docs) ! k) \<noteq> tech_key t))) \<and>
   (\<forall>s \<in> set (soft_skills (deduplicate docs)).
      \<not> (\<forall>c \<in> set (SoftSkill.name s). is_space c) \<and>
      (\<exists>i < length (concat (map soft_skills docs)).
         concat (map soft_skills docs) ! i = s \<and>
         (\<forall>k < i. skill_key (concat (map soft_skills docs) ! k) \<noteq> skill_key s)))"
proof -
  have t: "\<not> (\<forall>c \<in> set (TechnologySkill.name t). is_space c) \<and>
      (\<exists>i < length ts. ts ! i = t \<and> (\<forall>k < i. tech_key (ts ! k) \<noteq> tech_key t))"
    if "t \<in> set (first_by_key tech_key ts)" for t ts
    using first_by_key_first [OF that] blank_key [of "TechnologySkill.name t"]
    by (auto simp: tech_key_def)
  have s: "\<not> (\<forall>c \<in> set (SoftSkill.name s). is_space c) \<and>
      (\<exists>i < length ss. ss ! i = s \<and> (\<forall>k < i. skill_key (ss ! k) \<noteq> skill_key s))"
    if "s \<in> set (first_by_key skill_key ss)" for s ss
    using first_by_key_first [OF that] blank_key [of "SoftSkill.name s"]
    by (auto simp: skill_key_def)
  show ?thesis
    unfolding deduplicate_eq
    by (intro conjI ballI refl distinct_first_by_key keys_first_by_key t s)
qed

text \<open>
  In the example the second document's \<open>PYTHON\<close> (padded, another category) and its
  blank-named skill are dropped, and \<open>Python\<close> keeps its first casing and category.
\<close>

theorem deduplicate_keeps_first_witness:
  "technologies (deduplicate [ex_doc_1, ex_doc_2]) =
     [\<lparr>TechnologySkill.name = ''Python'', category = ''Programming Language''\<rparr>,
      \<lparr>TechnologySkill.name = ''Docker'', category = ''DevOps Tool''\<rparr>,
      \<lparr>TechnologySkill.name = ''SQL'', category = ''Database''\<rparr>] \<and>
   soft_skills (deduplicate [ex_doc_1, ex_doc_2]) =
     [\<lparr>SoftSkill.name = ''Teamwork'', description = ''Working in a team''\<rparr>] \<and>
   first_by_key tech_key (concat (map technologies [ex_doc_1, ex_doc_2]))
     = technologies (deduplicate [ex_doc_1, ex_doc_2]) \<and>
   \<lparr>TechnologySkill.name = ''Docker'', category = ''DevOps Tool''\<rparr>
     \<in> set (technologies (deduplicate [ex_doc_1, ex_doc_2])) \<and>
   \<not> (\<forall>c \<in> set ''Docker''. is_space c)"
proof -
  from deduplicate_keeps_first [of "[ex_doc_1, ex_doc_2]"]
  have "first_by_key tech_key (concat (map technologies [ex_doc_1, ex_doc_2]))
          = technologies (deduplicate [ex_doc_1, ex_doc_2])"
    and "\<forall>t \<in> set (technologies (deduplicate [ex_doc_1, ex_doc_2])).
           \<not> (\<forall>c \<in> set (TechnologySkill.name t). is_space c)"
    by simp_all
  then show ?thesis unfolding ex_dedup by simp
qed


end
